theory Spec2Isabelle
  imports Complex_Main
begin

section \<open>Blocks and their outcomes\<close>

text \<open>
  The notebooks call blocks as Python callables: \<^verbatim>\<open>module(x)\<close>. Such a call returns a
  tensor, raises, or does not return (a block may contain a loop). The outcome of a call
  is therefore \<open>None\<close> when the call does not return, \<open>Some (Inl e)\<close> when it raises
  \<open>e\<close> and \<open>Some (Inr y)\<close> when it returns \<open>y\<close>. The tensor type \<open>'t\<close> is the
  framework's and stays abstract.
\<close>

datatype error = ShapeMismatch | PlacementMismatch | ConstructionError | FrameworkError string

type_synonym 't outcome = "(error + 't) option"

type_synonym 't block = "'t \<Rightarrow> 't outcome"

text \<open>Evaluating \<^verbatim>\<open>f(e)\<close> in Python: the argument first; \<open>f\<close> is called only when
  the argument was computed.\<close>

definition then_call :: "'a outcome \<Rightarrow> ('a \<Rightarrow> 'b outcome) \<Rightarrow> 'b outcome" where
  "then_call r f = (case r of None \<Rightarrow> None | Some (Inl e) \<Rightarrow> Some (Inl e) | Some (Inr v) \<Rightarrow> f v)"

section \<open>MySequential\<close>

text \<open>
  \<^verbatim>\<open>
  class MySequential(tf.keras.Model):
      def __init__(self, *args):
          super().__init__()
          self.modules = []
          for block in args:
              self.modules.append(block)

      def call(self, x):
          for module in self.modules:
              x = module(x)
          return x
  \<close>
  The constructor stores whatever it is given and never looks at it, so the record is
  polymorphic in what a block is: a callable for \<open>call\<close>, a reference into an object
  store where the identity of the children matters.
\<close>

record 'b MySequential =
  modules :: "'b list"

fun init_loop :: "'b MySequential \<Rightarrow> 'b list \<Rightarrow> 'b MySequential" where
  "init_loop self [] = self"
| "init_loop self (block # args) = init_loop (self\<lparr>modules := modules self @ [block]\<rparr>) args"

definition MySequential_init :: "'b list \<Rightarrow> error + 'b MySequential" where
  "MySequential_init args = Inr (init_loop \<lparr>modules = []\<rparr> args)"

fun call_loop :: "'t block list \<Rightarrow> 't \<Rightarrow> 't outcome" where
  "call_loop [] x = Some (Inr x)"
| "call_loop (m # rest) x =
     (case m x of
        None \<Rightarrow> None
      | Some (Inl e) \<Rightarrow> Some (Inl e)
      | Some (Inr y) \<Rightarrow> call_loop rest y)"

definition call :: "'t block MySequential \<Rightarrow> 't block" where
  "call self x = call_loop (modules self) x"

text \<open>
  The specification's reading of a container of units \<open>[u1, ..., un]\<close>, in its words:
  \<^verbatim>\<open>un.apply(...u2.apply(u1.apply(x))...)\<close>. The outermost application is the last
  unit's, so the recursion runs over the units from the last one backwards.
\<close>

fun nested_apply_from_last :: "'t block list \<Rightarrow> 't \<Rightarrow> 't outcome" where
  "nested_apply_from_last [] x = Some (Inr x)"
| "nested_apply_from_last (un # earlier) x = then_call (nested_apply_from_last earlier x) un"

definition spec_composition :: "'t block list \<Rightarrow> 't \<Rightarrow> 't outcome" where
  "spec_composition units x = nested_apply_from_last (rev units) x"

subsection \<open>Containers that hold references\<close>

text \<open>
  Python objects are held by reference, and \<open>modules\<close> is an ordinary list attribute, so
  a container can come to hold itself (\<^verbatim>\<open>a = MySequential(); a.modules.append(a)\<close>).
  To speak about such cycles the children are references into an object store, which
  gives the container stored at a reference, if the object there is a container.
\<close>

type_synonym ref = nat

type_synonym object_store = "ref \<Rightarrow> ref MySequential option"

definition refers_to :: "object_store \<Rightarrow> ref \<Rightarrow> ref \<Rightarrow> bool" where
  "refers_to store a b = (case store a of None \<Rightarrow> False | Some c \<Rightarrow> b \<in> set (modules c))"

definition cyclic_reference :: "object_store \<Rightarrow> ref \<Rightarrow> bool" where
  "cyclic_reference store r = tranclp (refers_to store) r r"

text \<open>The store after \<^verbatim>\<open>a = MySequential(); a.modules.append(a)\<close>, with \<open>a\<close> at
  reference 0.\<close>

definition self_containing_store :: object_store where
  "self_containing_store = (\<lambda>r. if r = 0 then Some \<lparr>modules = [0]\<rparr> else None)"

subsection \<open>Some blocks on integers\<close>

definition plus_one :: "int block" where
  "plus_one x = Some (Inr (x + 1))"

definition times_two :: "int block" where
  "times_two x = Some (Inr (x * 2))"

definition minus_three :: "int block" where
  "minus_three x = Some (Inr (x - 3))"

definition reject_negative :: "int block" where
  "reject_negative x = (if x < 0 then Some (Inl ShapeMismatch) else Some (Inr x))"

subsection \<open>Children with state\<close>

text \<open>
  A child is an object. A call of it can change the child (a layer creates its
  parameters when it is first called) and the state of the framework (its random
  generator). What \<^verbatim>\<open>module(x)\<close> does for the objects at hand is a parameter, an
  invocation: from the child, the input and the framework's state it gives the child and
  the state as the call leaves them, with what the call returned or raised, or nothing
  when the call does not return. The loop of \<open>call\<close> is then the same loop with the
  children and the state carried along; its list holds the children as the calls leave
  them. The children are taken to be distinct objects.
\<close>

type_synonym ('o, 't, 'w) invocation = "'o \<Rightarrow> 't \<Rightarrow> 'w \<Rightarrow> ('o \<times> 'w \<times> (error + 't)) option"

fun call_loop_objects :: "('o, 't, 'w) invocation \<Rightarrow> 'o list \<Rightarrow> 't \<Rightarrow> 'w
    \<Rightarrow> ('o list \<times> 'w \<times> (error + 't)) option" where
  "call_loop_objects invoke [] x w = Some ([], w, Inr x)"
| "call_loop_objects invoke (m # rest) x w =
     (case invoke m x w of
        None \<Rightarrow> None
      | Some (m', w', Inl e) \<Rightarrow> Some (m' # rest, w', Inl e)
      | Some (m', w', Inr y) \<Rightarrow>
          (case call_loop_objects invoke rest y w' of
             None \<Rightarrow> None
           | Some (rest', w'', r) \<Rightarrow> Some (m' # rest', w'', r)))"

definition call_objects :: "('o, 't, 'w) invocation \<Rightarrow> ('o, 'z) MySequential_scheme \<Rightarrow> 't \<Rightarrow> 'w
    \<Rightarrow> (('o, 'z) MySequential_scheme \<times> 'w \<times> (error + 't)) option" where
  "call_objects invoke self x w =
     map_option (\<lambda>(ms, w', r). (self\<lparr>modules := ms\<rparr>, w', r))
       (call_loop_objects invoke (modules self) x w)"

text \<open>A block without state, as an object: a call changes neither it nor the framework.\<close>

definition stateless :: "('t block, 't, 'w) invocation" where
  "stateless m x w = map_option (\<lambda>r. (m, w, r)) (m x)"

text \<open>
  Two properties an object can have under an invocation: no call changes the object, and
  what a call returns or raises does not depend on the framework's state.
\<close>

definition unchanged_by_call :: "('o, 't, 'w) invocation \<Rightarrow> 'o \<Rightarrow> bool" where
  "unchanged_by_call invoke c = (\<forall>x w c' w' r. invoke c x w = Some (c', w', r) \<longrightarrow> c' = c)"

definition ignores_state :: "('o, 't, 'w) invocation \<Rightarrow> 'o \<Rightarrow> bool" where
  "ignores_state invoke c =
     (\<forall>x w w'. map_option (\<lambda>after. snd (snd after)) (invoke c x w)
                = map_option (\<lambda>after. snd (snd after)) (invoke c x w'))"

text \<open>
  Children that count their calls: the state of a child is the number of calls made of
  it, the state of the framework is the list of the inputs the children were called
  with. A child raises on a negative input and subtracts 3 from any other.
\<close>

definition counting_child :: "(nat, int, int list) invocation" where
  "counting_child calls x seen =
     Some (Suc calls, seen @ [x], if x < 0 then Inl ShapeMismatch else Inr (x - 3))"

section \<open>The tensor engine\<close>

text \<open>
  The blocks of the notebook compute with TensorFlow: they call layer objects
  (\<^verbatim>\<open>Dense\<close>, \<^verbatim>\<open>Flatten\<close>, \<^verbatim>\<open>tf.keras.Sequential\<close>), the functions
  \<^verbatim>\<open>tf.matmul\<close>, \<^verbatim>\<open>tf.nn.relu\<close>, \<^verbatim>\<open>tf.norm\<close>, \<^verbatim>\<open>tf.reduce_sum\<close> and the
  operators \<^verbatim>\<open>+\<close>, \<^verbatim>\<open>>\<close> and \<^verbatim>\<open>/\<close> between a tensor and a Python number. None
  of it is code of the repository, so it is a parameter of the model: a record of
  operations on an abstract tensor type \<open>'t\<close>.

  A layer object has the abstract type \<open>'l\<close>. The notebook constructs its layers without
  an input size (\<^verbatim>\<open>Dense(20, activation=tf.nn.relu)\<close>), so a layer cannot have its
  kernel when it is constructed: the first call creates the parameters, with values
  drawn from the framework's random generator, whose state has the abstract type \<open>'w\<close>.
  \<open>layer_call\<close> is the call of a layer object: it gives the layer and the generator as
  the call leaves them, and what the call returned or raised.

  The functions and operators are stateless operations of the framework: what they
  return or raise is a function of their arguments. The state of a computation is in the
  layer objects and in the random generator. \<open>tensor_greater\<close> includes the
  conversion of the comparison's result to a Python truth value that \<^verbatim>\<open>while\<close>
  performs.
\<close>

record ('t, 'l, 'w) engine =
  layer_call :: "'l \<Rightarrow> 't \<Rightarrow> 'w \<Rightarrow> 'l \<times> 'w \<times> (error + 't)"
  tf_matmul :: "'t \<Rightarrow> 't \<Rightarrow> error + 't"
  tf_nn_relu :: "'t \<Rightarrow> error + 't"
  tf_norm :: "'t \<Rightarrow> error + 't"
  tf_reduce_sum :: "'t \<Rightarrow> error + 't"
  tensor_add :: "'t \<Rightarrow> int \<Rightarrow> error + 't"
  tensor_greater :: "'t \<Rightarrow> int \<Rightarrow> error + bool"
  tensor_div :: "'t \<Rightarrow> int \<Rightarrow> error + 't"

text \<open>A statement that raises ends the computation; otherwise the next one runs.\<close>

definition and_then :: "error + 'a \<Rightarrow> ('a \<Rightarrow> error + 'b) \<Rightarrow> error + 'b" where
  "and_then r f = (case r of Inl e \<Rightarrow> Inl e | Inr v \<Rightarrow> f v)"

text \<open>The layers of an engine as objects that a container can hold.\<close>

definition layer_invocation :: "('t, 'l, 'w) engine \<Rightarrow> ('l, 't, 'w) invocation" where
  "layer_invocation E l x w = Some (layer_call E l x w)"

section \<open>MLP\<close>

text \<open>
  \<^verbatim>\<open>
  class MLP(tf.keras.Model):
      def __init__(self):
          super().__init__()
          self.hidden = tf.keras.layers.Dense(units=256, activation=tf.nn.relu)
          self.out = tf.keras.layers.Dense(units=10)

      def call(self, x):
          return self.out(self.hidden((x)))
  \<close>
  The object is its two layers and whatever else it carries (the record scheme's
  extension). A call of a layer changes the layer object in place, so the attribute
  holds the layer as the call left it.
\<close>

record 'l MLP =
  hidden :: 'l
  out :: 'l

definition MLP_call :: "('t, 'l, 'w) engine \<Rightarrow> ('l, 'z) MLP_scheme \<Rightarrow> 't \<Rightarrow> 'w
    \<Rightarrow> ('l, 'z) MLP_scheme \<times> 'w \<times> (error + 't)" where
  "MLP_call E self x w =
     (case layer_call E (hidden self) x w of
        (hidden', w1, Inl e) \<Rightarrow> (self\<lparr>hidden := hidden'\<rparr>, w1, Inl e)
      | (hidden', w1, Inr y) \<Rightarrow>
          (case layer_call E (out (self\<lparr>hidden := hidden'\<rparr>)) y w1 of
             (out', w2, r) \<Rightarrow> (self\<lparr>hidden := hidden', out := out'\<rparr>, w2, r)))"

section \<open>NestMLP\<close>

text \<open>
  \<^verbatim>\<open>
  class NestMLP(tf.keras.Model):
      def __init__(self):
          super().__init__()
          self.net = tf.keras.Sequential()
          self.net.add(tf.keras.layers.Dense(64, activation=tf.nn.relu))
          self.net.add(tf.keras.layers.Dense(32, activation=tf.nn.relu))
          self.dense = tf.keras.layers.Dense(16, activation=tf.nn.relu)

      def call(self, inputs):
          return self.dense(self.net(inputs))
  \<close>
  \<open>net\<close> is a layer object of the framework like \<open>dense\<close>. The attribute \<open>dense\<close> is
  named \<open>dense16\<close> here, since FixedHiddenMLP has an attribute of the same name.
\<close>

record 'l NestMLP =
  net :: 'l
  dense16 :: 'l

definition NestMLP_call :: "('t, 'l, 'w) engine \<Rightarrow> ('l, 'z) NestMLP_scheme \<Rightarrow> 't \<Rightarrow> 'w
    \<Rightarrow> ('l, 'z) NestMLP_scheme \<times> 'w \<times> (error + 't)" where
  "NestMLP_call E self inputs w =
     (case layer_call E (net self) inputs w of
        (net', w1, Inl e) \<Rightarrow> (self\<lparr>net := net'\<rparr>, w1, Inl e)
      | (net', w1, Inr y) \<Rightarrow>
          (case layer_call E (dense16 (self\<lparr>net := net'\<rparr>)) y w1 of
             (dense', w2, r) \<Rightarrow> (self\<lparr>net := net', dense16 := dense'\<rparr>, w2, r)))"

section \<open>FixedHiddenMLP\<close>

text \<open>
  \<^verbatim>\<open>
  class FixedHiddenMLP(tf.keras.Model):
      def __init__(self):
          super().__init__()
          self.flatten = tf.keras.layers.Flatten()
          self.rand_weight = tf.constant(tf.random.uniform((20, 20)))
          self.dense = tf.keras.layers.Dense(20, activation=tf.nn.relu)

      def call(self, inputs):
          x = self.flatten(inputs)
          x = tf.nn.relu(tf.matmul(x, self.rand_weight) + 1)
          x = self.dense(x)
          while tf.norm(x) > 1:
              x /= 2
          return tf.reduce_sum(x)
  \<close>
\<close>

record ('t, 'l) FixedHiddenMLP =
  flatten :: 'l
  rand_weight :: 't
  dense :: 'l

text \<open>The second statement of \<open>call\<close>:
  \<^verbatim>\<open>tf.nn.relu(tf.matmul(x, self.rand_weight) + 1)\<close>.\<close>

definition fixed_hidden_layer :: "('t, 'l, 'w) engine \<Rightarrow> 't \<Rightarrow> 't \<Rightarrow> error + 't" where
  "fixed_hidden_layer E x weight =
     and_then (tf_matmul E x weight) (\<lambda>product.
     and_then (tensor_add E product 1) (\<lambda>shifted.
     tf_nn_relu E shifted))"

text \<open>
  The loop \<^verbatim>\<open>while tf.norm(x) > 1: x /= 2\<close>. Whether it ends depends on the engine's
  arithmetic, so it is a partial function: \<open>None\<close> when the loop runs forever.
  A tensor is immutable, so \<^verbatim>\<open>x /= 2\<close> binds \<open>x\<close> to a new tensor.
\<close>

partial_function (option) halving_loop :: "('t, 'l, 'w) engine \<Rightarrow> 't \<Rightarrow> (error + 't) option" where
  "halving_loop E x =
     (case tf_norm E x of
        Inl e \<Rightarrow> Some (Inl e)
      | Inr n \<Rightarrow>
          (case tensor_greater E n 1 of
             Inl e \<Rightarrow> Some (Inl e)
           | Inr continue \<Rightarrow>
               if continue
               then (case tensor_div E x 2 of
                       Inl e \<Rightarrow> Some (Inl e)
                     | Inr x' \<Rightarrow> halving_loop E x')
               else Some (Inr x)))"

text \<open>
  \<open>call\<close>, statement by statement: the three statements before the loop, then the loop
  and the \<^verbatim>\<open>return\<close>. The result has the object as the call leaves it: the two layer
  attributes hold the layers after their calls, and no statement assigns to an attribute.
\<close>

definition before_loop :: "('t, 'l, 'w) engine \<Rightarrow> ('t, 'l, 'z) FixedHiddenMLP_scheme \<Rightarrow> 't \<Rightarrow> 'w
    \<Rightarrow> ('t, 'l, 'z) FixedHiddenMLP_scheme \<times> 'w \<times> (error + 't)" where
  "before_loop E self inputs w =
     (case layer_call E (flatten self) inputs w of
        (flatten', w1, Inl e) \<Rightarrow> (self\<lparr>flatten := flatten'\<rparr>, w1, Inl e)
      | (flatten', w1, Inr x) \<Rightarrow>
          (let self1 = self\<lparr>flatten := flatten'\<rparr> in
           case fixed_hidden_layer E x (rand_weight self1) of
             Inl e \<Rightarrow> (self1, w1, Inl e)
           | Inr x \<Rightarrow>
               (case layer_call E (dense self1) x w1 of
                  (dense', w2, r) \<Rightarrow> (self1\<lparr>dense := dense'\<rparr>, w2, r))))"

definition FixedHiddenMLP_call :: "('t, 'l, 'w) engine \<Rightarrow> ('t, 'l, 'z) FixedHiddenMLP_scheme \<Rightarrow> 't \<Rightarrow> 'w
    \<Rightarrow> (('t, 'l, 'z) FixedHiddenMLP_scheme \<times> 'w \<times> (error + 't)) option" where
  "FixedHiddenMLP_call E self inputs w =
     (case before_loop E self inputs w of
        (self2, w2, Inl e) \<Rightarrow> Some (self2, w2, Inl e)
      | (self2, w2, Inr x) \<Rightarrow>
          (case halving_loop E x of
             None \<Rightarrow> None
           | Some (Inl e) \<Rightarrow> Some (self2, w2, Inl e)
           | Some (Inr x) \<Rightarrow> Some (self2, w2, tf_reduce_sum E x)))"

text \<open>Calls one after the other on the same object, with no parameter update between
  them; a call that raises leaves the object usable for the next one.\<close>

fun FixedHiddenMLP_calls :: "('t, 'l, 'w) engine \<Rightarrow> ('t, 'l, 'z) FixedHiddenMLP_scheme \<Rightarrow> 't list \<Rightarrow> 'w
    \<Rightarrow> (('t, 'l, 'z) FixedHiddenMLP_scheme \<times> 'w \<times> (error + 't) list) option" where
  "FixedHiddenMLP_calls E self [] w = Some (self, w, [])"
| "FixedHiddenMLP_calls E self (inputs # later) w =
     (case FixedHiddenMLP_call E self inputs w of
        None \<Rightarrow> None
      | Some (self', w', r) \<Rightarrow>
          (case FixedHiddenMLP_calls E self' later w' of
             None \<Rightarrow> None
           | Some (self'', w'', rs) \<Rightarrow> Some (self'', w'', r # rs)))"

section \<open>Two engines to run the blocks on\<close>

text \<open>
  In both engines a tensor is one number. A layer is a \<^verbatim>\<open>Flatten\<close>, a \<^verbatim>\<open>Dense\<close> with
  the choice of rectifying its output and, once it is built, its kernel and bias, or a
  \<^verbatim>\<open>Sequential\<close> of layers. The generator is the list of the numbers it will draw. The
  first call of a \<^verbatim>\<open>Dense\<close> layer draws its kernel and sets its bias to zero. The
  engines differ in their arithmetic.
\<close>

datatype 'n layer = Flatten | Dense bool "('n \<times> 'n) option" | Sequential "'n layer list"

record 'n arithmetic =
  num :: "int \<Rightarrow> 'n"
  mul :: "'n \<Rightarrow> 'n \<Rightarrow> 'n"
  add :: "'n \<Rightarrow> 'n \<Rightarrow> 'n"
  rectify :: "'n \<Rightarrow> 'n"
  magnitude :: "'n \<Rightarrow> 'n"
  exceeds :: "'n \<Rightarrow> int \<Rightarrow> bool"
  divide_by :: "'n \<Rightarrow> int \<Rightarrow> 'n"

definition draw :: "'n arithmetic \<Rightarrow> 'n list \<Rightarrow> 'n \<times> 'n list" where
  "draw A g = (case g of [] \<Rightarrow> (num A 0, []) | k # rest \<Rightarrow> (k, rest))"

definition dense_forward :: "'n arithmetic \<Rightarrow> bool \<Rightarrow> 'n \<Rightarrow> 'n \<Rightarrow> 'n \<Rightarrow> 'n" where
  "dense_forward A rectified kern bias x =
     (let y = add A (mul A x kern) bias in if rectified then rectify A y else y)"

fun layer_forward :: "'n arithmetic \<Rightarrow> 'n layer \<Rightarrow> 'n \<Rightarrow> 'n list \<Rightarrow> 'n layer \<times> 'n list \<times> (error + 'n)"
  and layers_forward :: "'n arithmetic \<Rightarrow> 'n layer list \<Rightarrow> 'n \<Rightarrow> 'n list
    \<Rightarrow> 'n layer list \<times> 'n list \<times> (error + 'n)" where
  "layer_forward A Flatten x g = (Flatten, g, Inr x)"
| "layer_forward A (Dense rectified (Some (kern, bias))) x g =
     (Dense rectified (Some (kern, bias)), g, Inr (dense_forward A rectified kern bias x))"
| "layer_forward A (Dense rectified None) x g =
     (case draw A g of
        (kern, g') \<Rightarrow>
          (Dense rectified (Some (kern, num A 0)), g',
           Inr (dense_forward A rectified kern (num A 0) x)))"
| "layer_forward A (Sequential layers) x g =
     (case layers_forward A layers x g of (layers', g', r) \<Rightarrow> (Sequential layers', g', r))"
| "layers_forward A [] x g = ([], g, Inr x)"
| "layers_forward A (l # rest) x g =
     (case layer_forward A l x g of
        (l', g', Inl e) \<Rightarrow> (l' # rest, g', Inl e)
      | (l', g', Inr y) \<Rightarrow>
          (case layers_forward A rest y g' of (rest', g'', r) \<Rightarrow> (l' # rest', g'', r)))"

definition scalar_engine_of :: "'n arithmetic \<Rightarrow> ('n, 'n layer, 'n list) engine" where
  "scalar_engine_of A =
     \<lparr>layer_call = layer_forward A,
      tf_matmul = (\<lambda>x y. Inr (mul A x y)),
      tf_nn_relu = (\<lambda>x. Inr (rectify A x)),
      tf_norm = (\<lambda>x. Inr (magnitude A x)),
      tf_reduce_sum = (\<lambda>x. Inr x),
      tensor_add = (\<lambda>x k. Inr (add A x (num A k))),
      tensor_greater = (\<lambda>x k. Inr (exceeds A x k)),
      tensor_div = (\<lambda>x k. Inr (divide_by A x k))\<rparr>"

text \<open>Exact arithmetic on the rational numbers.\<close>

definition exact :: "rat arithmetic" where
  "exact =
     \<lparr>num = of_int,
      mul = (\<lambda>x y. x * y),
      add = (\<lambda>x y. x + y),
      rectify = (\<lambda>x. max 0 x),
      magnitude = (\<lambda>x. \<bar>x\<bar>),
      exceeds = (\<lambda>x k. x > of_int k),
      divide_by = (\<lambda>x k. x / of_int k)\<rparr>"

definition scalar_engine :: "(rat, rat layer, rat list) engine" where
  "scalar_engine = scalar_engine_of exact"















section \<open>Device selection\<close>

text \<open>
  \<^verbatim>\<open>
  def try_gpu(i=0):
      if len(tf.config.experimental.list_physical_devices('GPU')) >= i + 1:
          return tf.device(f'/GPU:{i}')
      return tf.device('/CPU:0')

  def try_all_gpus():
      num_gpus = len(tf.config.experimental.list_physical_devices('GPU'))
      ctxes = [tf.device(f'/GPU:{i}') for i in range(num_gpus)]
      return ctxes if ctxes else [tf.device('/CPU:0')]
  \<close>
  What \<^verbatim>\<open>list_physical_devices\<close> lists is the machine's: it is a parameter, a
  function from the device type to a list of devices. \<^verbatim>\<open>tf.device\<close> makes a device
  context from the name it is given. An integer in an f-string is written in decimal.
\<close>

datatype device_context = EagerDeviceContext string

definition tf_device :: "string \<Rightarrow> device_context" where
  "tf_device name = EagerDeviceContext name"

definition digit :: "nat \<Rightarrow> char" where
  "digit d = ''0123456789'' ! d"

fun str_nat :: "nat \<Rightarrow> string" where
  "str_nat n = (if n < 10 then [digit n] else str_nat (n div 10) @ [digit (n mod 10)])"

definition str_int :: "int \<Rightarrow> string" where
  "str_int i = (if i < 0 then CHR ''-'' # str_nat (nat (- i)) else str_nat (nat i))"

definition try_gpu :: "(string \<Rightarrow> 'd list) \<Rightarrow> int \<Rightarrow> device_context" where
  "try_gpu list_physical_devices i =
     (if int (length (list_physical_devices ''GPU'')) \<ge> i + 1
      then tf_device (''/GPU:'' @ str_int i)
      else tf_device ''/CPU:0'')"

definition try_all_gpus :: "(string \<Rightarrow> 'd list) \<Rightarrow> device_context list" where
  "try_all_gpus list_physical_devices =
     (let num_gpus = length (list_physical_devices ''GPU'');
          ctxes = map (\<lambda>i. tf_device (''/GPU:'' @ str_int (int i))) [0..<num_gpus]
      in if ctxes \<noteq> [] then ctxes else [tf_device ''/CPU:0''])"

text \<open>Two machines: one that lists two GPUs and one that lists none.\<close>

definition two_gpus :: "string \<Rightarrow> string list" where
  "two_gpus device_type =
     (if device_type = ''GPU'' then [''physical GPU 0'', ''physical GPU 1''] else [''physical CPU 0''])"

definition no_gpu :: "string \<Rightarrow> string list" where
  "no_gpu device_type = (if device_type = ''GPU'' then [] else [''physical CPU 0''])"

section \<open>Properties of MySequential\<close>

lemma modules_init_loop: "modules (init_loop self args) = modules self @ args"
  by (induction args arbitrary: self) simp_all

lemma init_loop_empty: "init_loop \<lparr>modules = []\<rparr> args = \<lparr>modules = args\<rparr>"
proof -
  have "modules (init_loop \<lparr>modules = []\<rparr> args) = args"
    by (simp add: modules_init_loop)
  then show ?thesis
    by (cases "init_loop \<lparr>modules = []\<rparr> args") simp
qed

lemma MySequential_init_eq: "MySequential_init args = Inr \<lparr>modules = args\<rparr>"
  by (simp add: MySequential_init_def init_loop_empty)

lemma call_loop_append:
  "call_loop (us @ vs) x = then_call (call_loop us x) (call_loop vs)"
  by (induction us arbitrary: x) (simp_all add: then_call_def split: option.splits sum.splits)

lemma call_loop_single: "call_loop [u] x = u x"
  by (simp split: option.splits sum.splits)

lemma call_loop_snoc: "call_loop (us @ [u]) x = then_call (call_loop us x) u"
proof -
  have "call_loop [u] = u"
    by (rule ext) (rule call_loop_single)
  then show ?thesis
    by (simp add: call_loop_append)
qed

lemma call_loop_rev: "call_loop (rev us) x = nested_apply_from_last us x"
  by (induction us arbitrary: x) (simp_all add: call_loop_snoc)

text \<open>
  C1. A container built from the units \<open>[u1, ..., un]\<close> is constructed without error,
  and applying it to \<open>x\<close> has the outcome of \<open>un(...u2(u1(x))...)\<close>: each child receives
  the previous child's output, in insertion order, and the last child's output is the
  container's. The equation covers the inputs on which a child raises or does not return,
  where both sides raise the same error or both do not return.
\<close>

theorem call_is_left_to_right_composition:
  "\<exists>c. MySequential_init units = Inr c \<and> modules c = units
       \<and> call c x = spec_composition units x"
proof -
  have "call \<lparr>modules = units\<rparr> x = spec_composition units x"
    using call_loop_rev [of "rev units" x] by (simp add: call_def spec_composition_def)
  then show ?thesis
    by (simp add: MySequential_init_eq)
qed

text \<open>
  C2. A container built from no units is constructed without error, and applying it
  returns the input as it is.
\<close>

theorem empty_container_is_identity:
  "\<exists>c. MySequential_init [] = Inr c \<and> call c x = Some (Inr x)"
  by (simp add: MySequential_init_eq call_def)

text \<open>
  C3. Wrapping a contiguous run \<open>middle\<close> of the children in a container of its own,
  and placing that container where the run was, does not change the outcome of the
  outer container on any input; for \<open>before = [u1]\<close>, \<open>middle = [u2, u3]\<close> and
  \<open>after = [u4]\<close> this is the equation between \<open>[u1, [u2, u3], u4]\<close> and
  \<open>[u1, u2, u3, u4]\<close>.
\<close>

theorem nesting_is_flattening:
  assumes "MySequential_init middle = Inr inner"
    and "MySequential_init (before @ call inner # after) = Inr nested"
    and "MySequential_init (before @ middle @ after) = Inr flat"
  shows "call nested x = call flat x"
proof -
  have inner: "inner = \<lparr>modules = middle\<rparr>"
    using assms(1) by (simp add: MySequential_init_eq)
  have nested: "modules nested = before @ call inner # after"
    using assms(2) by (auto simp add: MySequential_init_eq)
  have flat: "modules flat = before @ middle @ after"
    using assms(3) by (auto simp add: MySequential_init_eq)
  have "call inner = call_loop middle"
    by (rule ext) (simp add: call_def inner)
  then have "call_loop (call inner # after) v = call_loop (middle @ after) v" for v
    by (simp add: call_loop_append then_call_def)
  then have "call_loop (call inner # after) = call_loop (middle @ after)"
    by (rule ext)
  then show ?thesis
    by (simp add: call_def nested flat call_loop_append)
qed

theorem nesting_is_flattening_witness:
  "MySequential_init [times_two, minus_three] = Inr \<lparr>modules = [times_two, minus_three]\<rparr>
   \<and> call \<lparr>modules = [plus_one, call \<lparr>modules = [times_two, minus_three]\<rparr>, reject_negative]\<rparr> 5
     = call \<lparr>modules = [plus_one, times_two, minus_three, reject_negative]\<rparr> 5
   \<and> call \<lparr>modules = [plus_one, times_two, minus_three, reject_negative]\<rparr> 5 = Some (Inr 9)"
  using nesting_is_flattening [of "[times_two, minus_three]" "\<lparr>modules = [times_two, minus_three]\<rparr>"
      "[plus_one]" "[reject_negative]"
      "\<lparr>modules = [plus_one, call \<lparr>modules = [times_two, minus_three]\<rparr>, reject_negative]\<rparr>"
      "\<lparr>modules = [plus_one, times_two, minus_three, reject_negative]\<rparr>" 5]
  by (simp add: MySequential_init_eq call_def plus_one_def times_two_def minus_three_def reject_negative_def)

subsection \<open>The loop over children with state\<close>

text \<open>On blocks without state the loop over objects is the loop over blocks: the
  children and the framework's state come back as they were, with the same outcome.\<close>

lemma call_loop_objects_stateless:
  "call_loop_objects stateless ms x w = map_option (\<lambda>r. (ms, w, r)) (call_loop ms x)"
  by (induction ms arbitrary: x) (auto simp add: stateless_def split: option.splits sum.splits)

lemma call_loop_objects_length:
  "call_loop_objects invoke ms x w = Some (ms', w', r) \<Longrightarrow> length ms' = length ms"
  by (induction ms arbitrary: x w ms') (auto split: option.splits sum.splits prod.splits)

lemma call_loop_objects_append:
  "call_loop_objects invoke before x w = Some (before', w1, Inr v) \<Longrightarrow>
   call_loop_objects invoke (before @ rest) x w =
     (case call_loop_objects invoke rest v w1 of
        None \<Rightarrow> None
      | Some (rest', w2, r) \<Rightarrow> Some (before' @ rest', w2, r))"
  by (induction before arbitrary: x w before')
     (auto split: option.splits sum.splits prod.splits)

lemma unchanged_by_callD:
  "unchanged_by_call invoke c \<Longrightarrow> invoke c x w = Some (c', w', r) \<Longrightarrow> c' = c"
  unfolding unchanged_by_call_def by blast

lemma call_loop_objects_unchanged:
  "\<forall>c \<in> set ms. unchanged_by_call invoke c \<Longrightarrow>
   call_loop_objects invoke ms x w = Some (ms', w', r) \<Longrightarrow> ms' = ms"
proof (induction ms arbitrary: x w ms')
  case Nil
  then show ?case by simp
next
  case (Cons m rest)
  from Cons.prems(1) have head: "unchanged_by_call invoke m"
    and tail: "\<forall>c \<in> set rest. unchanged_by_call invoke c"
    by simp_all
  from Cons.prems(2) show ?case
    by (auto split: option.splits sum.splits prod.splits
        dest: unchanged_by_callD [OF head] Cons.IH [OF tail])
qed

lemma call_loop_objects_result:
  "\<forall>c \<in> set ms. ignores_state invoke c \<Longrightarrow>
   map_option (\<lambda>after. snd (snd after)) (call_loop_objects invoke ms x w)
     = map_option (\<lambda>after. snd (snd after)) (call_loop_objects invoke ms x w')"
proof (induction ms arbitrary: x w w')
  case Nil
  then show ?case by simp
next
  case (Cons m rest)
  from Cons.prems have head:
    "map_option (\<lambda>after. snd (snd after)) (invoke m x w)
       = map_option (\<lambda>after. snd (snd after)) (invoke m x w')"
    by (simp add: ignores_state_def)
  from Cons.prems have tail: "\<forall>c \<in> set rest. ignores_state invoke c"
    by simp
  show ?case
  proof (cases "invoke m x w")
    case None
    with head show ?thesis by simp
  next
    case (Some first)
    obtain m1 w1 r where first: "first = (m1, w1, r)"
      by (cases first) auto
    from head Some first obtain m2 w2 where second: "invoke m x w' = Some (m2, w2, r)"
      by (cases "invoke m x w'") auto
    show ?thesis
    proof (cases r)
      case (Inl e)
      with Some first second show ?thesis by simp
    next
      case (Inr y)
      have "map_option (\<lambda>after. snd (snd after)) (call_loop_objects invoke rest y w1)
              = map_option (\<lambda>after. snd (snd after)) (call_loop_objects invoke rest y w2)"
        by (rule Cons.IH [OF tail])
      then show ?thesis
        using Some first second Inr
        by (cases "call_loop_objects invoke rest y w1"; cases "call_loop_objects invoke rest y w2")
           auto
    qed
  qed
qed

lemma call_objects_frame:
  assumes "call_objects invoke s x w = Some (s', w', r)"
  shows "length (modules s') = length (modules s)"
    and "MySequential.more s' = MySequential.more s"
    and "\<forall>c \<in> set (modules s). unchanged_by_call invoke c \<Longrightarrow> s' = s"
  using assms
  by (auto simp add: call_objects_def dest: call_loop_objects_length call_loop_objects_unchanged)

lemma call_objects_result_loop:
  "map_option (\<lambda>after. snd (snd after)) (call_objects invoke s x w)
     = map_option (\<lambda>after. snd (snd after)) (call_loop_objects invoke (modules s) x w)"
  by (cases "call_loop_objects invoke (modules s) x w") (auto simp add: call_objects_def)

lemma call_objects_result:
  assumes "\<forall>c \<in> set (modules s). ignores_state invoke c" and "modules s' = modules s"
  shows "map_option (\<lambda>after. snd (snd after)) (call_objects invoke s x w)
       = map_option (\<lambda>after. snd (snd after)) (call_objects invoke s' x w')"
  using call_loop_objects_result [OF assms(1), of x w w']
  by (simp add: call_objects_result_loop assms(2))

text \<open>
  C8, as amended. The constructor validates nothing: for every sequence of arguments it
  returns a container that holds exactly these arguments, in order, and it never raises.
  During a call, the first error a child raises ends the loop and is what the container's
  call raises. The failing child and the framework's state are then as the one call of
  that child left them, and the children after it are as they were: the failing child was
  called once and not again, and no later child was called.
\<close>

theorem construction_never_fails_and_first_error_ends_call:
  "(\<exists>c. MySequential_init args = Inr c \<and> modules c = args)
   \<and> (call_loop_objects invoke before x w = Some (before', w1, Inr v)
        \<longrightarrow> invoke failing v w1 = Some (failing', w2, Inl e)
        \<longrightarrow> call_objects invoke \<lparr>modules = before @ failing # after\<rparr> x w
              = Some (\<lparr>modules = before' @ failing' # after\<rparr>, w2, Inl e))"
  by (simp add: MySequential_init_eq call_objects_def call_loop_objects_append)

theorem construction_never_fails_and_first_error_ends_call_witness:
  "call_loop_objects counting_child [0, 0] 4 [] = Some ([1, 1], [4, 1], Inr (- 2))
   \<and> counting_child 0 (- 2) [4, 1] = Some (1, [4, 1, - 2], Inl ShapeMismatch)
   \<and> call_objects counting_child \<lparr>modules = [0, 0] @ 0 # [0]\<rparr> 4 []
       = Some (\<lparr>modules = [1, 1] @ 1 # [0]\<rparr>, [4, 1, - 2], Inl ShapeMismatch)
   \<and> (\<exists>c. MySequential_init [0 :: nat, 0, 0, 0] = Inr c \<and> modules c = [0, 0, 0, 0])"
proof -
  have a: "call_loop_objects counting_child [0, 0] 4 [] = Some ([1, 1], [4, 1], Inr (- 2))"
    by (simp add: counting_child_def)
  have b: "counting_child 0 (- 2) [4, 1] = Some (1, [4, 1, - 2], Inl ShapeMismatch)"
    by (simp add: counting_child_def)
  from construction_never_fails_and_first_error_ends_call
    [of "[0 :: nat, 0, 0, 0]" counting_child "[0, 0]" 4 "[]" "[1, 1]" "[4, 1]" "- 2" 0 1 "[4, 1, - 2]"
      ShapeMismatch "[0]"] a b
  show ?thesis by blast
qed

text \<open>
  The claim C8 as stated fails: the object at reference 0 of \<open>self_containing_store\<close>
  is a container that holds itself, and the constructor given this child returns a
  container, not a \<open>ConstructionError\<close>.
\<close>

theorem cyclic_child_accepted:
  "cyclic_reference self_containing_store 0
   \<and> MySequential_init [0::ref] = Inr \<lparr>modules = [0]\<rparr>
   \<and> MySequential_init [0::ref] \<noteq> Inl ConstructionError"
proof -
  have "refers_to self_containing_store 0 0"
    by (simp add: refers_to_def self_containing_store_def)
  then have "cyclic_reference self_containing_store 0"
    unfolding cyclic_reference_def by (rule tranclp.r_into_trancl)
  then show ?thesis
    by (simp add: MySequential_init_eq)
qed

section \<open>Properties of MLP, NestMLP and FixedHiddenMLP\<close>

lemma layer_unchanged:
  "unchanged_by_call (layer_invocation E) l \<Longrightarrow> layer_call E l x w = (l', w', r) \<Longrightarrow> l' = l"
  by (rule unchanged_by_callD [of "layer_invocation E" l x w l' w' r])
     (simp_all add: layer_invocation_def)

lemma layer_result:
  "ignores_state (layer_invocation E) l \<Longrightarrow>
   snd (snd (layer_call E l x w)) = snd (snd (layer_call E l x w'))"
  by (simp add: ignores_state_def layer_invocation_def)

subsection \<open>What a call changes\<close>

lemma MLP_call_frame:
  assumes "MLP_call E m x w = (m', w', r)"
  shows "MLP.more m' = MLP.more m"
    and "unchanged_by_call (layer_invocation E) (hidden m) \<Longrightarrow>
         unchanged_by_call (layer_invocation E) (out m) \<Longrightarrow> m' = m"
  using assms
  by (auto simp add: MLP_call_def split: prod.splits sum.splits dest!: layer_unchanged)

lemma NestMLP_call_frame:
  assumes "NestMLP_call E n x w = (n', w', r)"
  shows "NestMLP.more n' = NestMLP.more n"
    and "unchanged_by_call (layer_invocation E) (net n) \<Longrightarrow>
         unchanged_by_call (layer_invocation E) (dense16 n) \<Longrightarrow> n' = n"
  using assms
  by (auto simp add: NestMLP_call_def split: prod.splits sum.splits dest!: layer_unchanged)

lemma before_loop_frame:
  assumes "before_loop E f inputs w = (f', w', r)"
  shows "rand_weight f' = rand_weight f"
    and "FixedHiddenMLP.more f' = FixedHiddenMLP.more f"
    and "unchanged_by_call (layer_invocation E) (flatten f) \<Longrightarrow>
         unchanged_by_call (layer_invocation E) (dense f) \<Longrightarrow> f' = f"
  using assms
  by (auto simp add: before_loop_def Let_def split: prod.splits sum.splits dest!: layer_unchanged)

lemma FixedHiddenMLP_call_before_loop:
  "FixedHiddenMLP_call E f inputs w = Some (f', w', r) \<Longrightarrow> \<exists>q. before_loop E f inputs w = (f', w', q)"
  by (auto simp add: FixedHiddenMLP_call_def split: prod.splits sum.splits option.splits)

lemma FixedHiddenMLP_call_frame:
  assumes "FixedHiddenMLP_call E f inputs w = Some (f', w', r)"
  shows "rand_weight f' = rand_weight f"
    and "FixedHiddenMLP.more f' = FixedHiddenMLP.more f"
    and "unchanged_by_call (layer_invocation E) (flatten f) \<Longrightarrow>
         unchanged_by_call (layer_invocation E) (dense f) \<Longrightarrow> f' = f"
  using FixedHiddenMLP_call_before_loop [OF assms] before_loop_frame [of E f inputs w f' w']
  by blast+

lemma FixedHiddenMLP_calls_constant:
  "FixedHiddenMLP_calls E f inputss w = Some (f', w', rs) \<Longrightarrow> rand_weight f' = rand_weight f"
proof (induction inputss arbitrary: f w rs)
  case Nil
  then show ?case by simp
next
  case (Cons inputs later)
  from Cons.prems obtain mid w1 r rs' where
    first: "FixedHiddenMLP_call E f inputs w = Some (mid, w1, r)" and
    rest: "FixedHiddenMLP_calls E mid later w1 = Some (f', w', rs')"
    by (auto split: option.splits)
  from rest have "rand_weight f' = rand_weight mid"
    by (rule Cons.IH)
  with FixedHiddenMLP_call_frame(1) [OF first] show ?case
    by simp
qed

lemma FixedHiddenMLP_calls_unchanged:
  assumes "unchanged_by_call (layer_invocation E) (flatten f)"
    and "unchanged_by_call (layer_invocation E) (dense f)"
  shows "FixedHiddenMLP_calls E f inputss w = Some (f', w', rs) \<Longrightarrow> f' = f"
proof (induction inputss arbitrary: w rs)
  case Nil
  then show ?case by simp
next
  case (Cons inputs later)
  from Cons.prems obtain mid w1 r rs' where
    first: "FixedHiddenMLP_call E f inputs w = Some (mid, w1, r)" and
    rest: "FixedHiddenMLP_calls E mid later w1 = Some (f', w', rs')"
    by (auto split: option.splits)
  from FixedHiddenMLP_call_frame(3) [OF first assms] have "mid = f" .
  with rest show ?case
    by (simp add: Cons.IH)
qed

text \<open>
  C4, as amended. In the four classes of units of the notebook (FixedHiddenMLP, MLP,
  NestMLP, MySequential) \<open>call\<close> assigns to no attribute: after a call that returns or
  raises, the unit differs from the unit before at most in its children. So the constant
  \<open>rand_weight\<close> of a FixedHiddenMLP is the same tensor after one call and after any
  number of calls one after the other, and so is everything else a unit carries; a
  MySequential has the same number of children. When a call of a child leaves that child
  as it is, for every child, which is the case once the children are built, the unit
  after the call is the unit before.
\<close>

theorem call_changes_a_unit_only_in_its_children:
  "(FixedHiddenMLP_call E f inputs w = Some (f', w', r) \<longrightarrow>
      rand_weight f' = rand_weight f \<and> FixedHiddenMLP.more f' = FixedHiddenMLP.more f
      \<and> (unchanged_by_call (layer_invocation E) (flatten f)
           \<and> unchanged_by_call (layer_invocation E) (dense f) \<longrightarrow> f' = f))
   \<and> (FixedHiddenMLP_calls E f inputss w = Some (f'', w'', rs) \<longrightarrow>
        rand_weight f'' = rand_weight f
        \<and> (unchanged_by_call (layer_invocation E) (flatten f)
             \<and> unchanged_by_call (layer_invocation E) (dense f) \<longrightarrow> f'' = f))
   \<and> (MLP_call E m x w = (m', wm, rm) \<longrightarrow>
        MLP.more m' = MLP.more m
        \<and> (unchanged_by_call (layer_invocation E) (hidden m)
             \<and> unchanged_by_call (layer_invocation E) (out m) \<longrightarrow> m' = m))
   \<and> (NestMLP_call E n x w = (n', wn, rn) \<longrightarrow>
        NestMLP.more n' = NestMLP.more n
        \<and> (unchanged_by_call (layer_invocation E) (net n)
             \<and> unchanged_by_call (layer_invocation E) (dense16 n) \<longrightarrow> n' = n))
   \<and> (call_objects invoke s xs ws = Some (s', ws', rs') \<longrightarrow>
        length (modules s') = length (modules s) \<and> MySequential.more s' = MySequential.more s
        \<and> ((\<forall>c \<in> set (modules s). unchanged_by_call invoke c) \<longrightarrow> s' = s))"
  using FixedHiddenMLP_call_frame [of E f inputs w f' w' r]
    FixedHiddenMLP_calls_constant [of E f inputss w f'' w'' rs]
    FixedHiddenMLP_calls_unchanged [of E f inputss w f'' w'' rs]
    MLP_call_frame [of E m x w m' wm rm]
    NestMLP_call_frame [of E n x w n' wn rn]
    call_objects_frame [of invoke s xs ws s' ws' rs']
  by blast

subsection \<open>Calls on the engine with exact arithmetic\<close>

lemmas scalar_simps = scalar_engine_def scalar_engine_of_def exact_def draw_def dense_forward_def
  layer_invocation_def

lemma flatten_layer_settled:
  "unchanged_by_call (layer_invocation (scalar_engine_of A)) Flatten"
  "ignores_state (layer_invocation (scalar_engine_of A)) Flatten"
  by (simp_all add: unchanged_by_call_def ignores_state_def layer_invocation_def scalar_engine_of_def)

lemma dense_layer_settled:
  "unchanged_by_call (layer_invocation (scalar_engine_of A)) (Dense rectified (Some (kern, bias)))"
  "ignores_state (layer_invocation (scalar_engine_of A)) (Dense rectified (Some (kern, bias)))"
  by (simp_all add: unchanged_by_call_def ignores_state_def layer_invocation_def scalar_engine_of_def)

lemma sequential_layer_settled:
  "unchanged_by_call (layer_invocation (scalar_engine_of A))
     (Sequential [Dense r1 (Some (k1, b1)), Dense r2 (Some (k2, b2))])"
  "ignores_state (layer_invocation (scalar_engine_of A))
     (Sequential [Dense r1 (Some (k1, b1)), Dense r2 (Some (k2, b2))])"
  by (simp_all add: unchanged_by_call_def ignores_state_def layer_invocation_def scalar_engine_of_def)

lemma halving_loop_scalar:
  "halving_loop scalar_engine x
     = (if \<bar>x\<bar> > 1 then halving_loop scalar_engine (x / 2) else Some (Inr x))"
  by (subst halving_loop.simps) (simp add: scalar_engine_def scalar_engine_of_def exact_def)

lemma halving_from_seven: "halving_loop scalar_engine 7 = Some (Inr (7 / 8))"
  by (simp add: halving_loop_scalar)

lemma halving_from_four: "halving_loop scalar_engine 4 = Some (Inr 1)"
  by (simp add: halving_loop_scalar)

lemma built_before_loop:
  "before_loop scalar_engine
     \<lparr>flatten = Flatten, rand_weight = 3, dense = Dense True (Some (1, 0)), \<dots> = z\<rparr> x g
   = (\<lparr>flatten = Flatten, rand_weight = 3, dense = Dense True (Some (1, 0)), \<dots> = z\<rparr>, g,
      Inr (max 0 (max 0 (x * 3 + 1))))"
  by (simp add: before_loop_def fixed_hidden_layer_def and_then_def scalar_simps)

lemma reduce_sum_scalar: "tf_reduce_sum scalar_engine x = Inr x"
  by (simp add: scalar_simps)

lemma built_call_at_two:
  "FixedHiddenMLP_call scalar_engine
     \<lparr>flatten = Flatten, rand_weight = 3, dense = Dense True (Some (1, 0)), \<dots> = z\<rparr> 2 g
   = Some (\<lparr>flatten = Flatten, rand_weight = 3, dense = Dense True (Some (1, 0)), \<dots> = z\<rparr>, g, Inr (7 / 8))"
  by (simp add: FixedHiddenMLP_call_def built_before_loop halving_from_seven reduce_sum_scalar)

lemma built_call_at_one:
  "FixedHiddenMLP_call scalar_engine
     \<lparr>flatten = Flatten, rand_weight = 3, dense = Dense True (Some (1, 0)), \<dots> = z\<rparr> 1 g
   = Some (\<lparr>flatten = Flatten, rand_weight = 3, dense = Dense True (Some (1, 0)), \<dots> = z\<rparr>, g, Inr 1)"
  by (simp add: FixedHiddenMLP_call_def built_before_loop halving_from_four reduce_sum_scalar)

lemma fresh_before_loop:
  "before_loop scalar_engine \<lparr>flatten = Flatten, rand_weight = 3, dense = Dense True None\<rparr> 1 [1]
   = (\<lparr>flatten = Flatten, rand_weight = 3, dense = Dense True (Some (1, 0))\<rparr>, [], Inr 4)"
  by (simp add: before_loop_def fixed_hidden_layer_def and_then_def scalar_simps)

lemma fresh_call_at_one:
  "FixedHiddenMLP_call scalar_engine \<lparr>flatten = Flatten, rand_weight = 3, dense = Dense True None\<rparr> 1 [1]
   = Some (\<lparr>flatten = Flatten, rand_weight = 3, dense = Dense True (Some (1, 0))\<rparr>, [], Inr 1)"
  by (simp add: FixedHiddenMLP_call_def fresh_before_loop halving_from_four reduce_sum_scalar)

lemma built_MLP_at_three:
  "MLP_call scalar_engine
     \<lparr>hidden = Dense True (Some (2, 1)), out = Dense False (Some (1, - 5)), \<dots> = z\<rparr> 3 g
   = (\<lparr>hidden = Dense True (Some (2, 1)), out = Dense False (Some (1, - 5)), \<dots> = z\<rparr>, g, Inr 2)"
  by (simp add: MLP_call_def scalar_simps)

lemma fresh_MLP_at_three:
  "MLP_call scalar_engine \<lparr>hidden = Dense True None, out = Dense False None\<rparr> 3 [1, 1]
     = (\<lparr>hidden = Dense True (Some (1, 0)), out = Dense False (Some (1, 0))\<rparr>, [], Inr 3)"
  "MLP_call scalar_engine \<lparr>hidden = Dense True None, out = Dense False None\<rparr> 3 [2, 1]
     = (\<lparr>hidden = Dense True (Some (2, 0)), out = Dense False (Some (1, 0))\<rparr>, [], Inr 6)"
  by (simp_all add: MLP_call_def scalar_simps)

lemma built_NestMLP_at_three:
  "NestMLP_call scalar_engine
     \<lparr>net = Sequential [Dense True (Some (2, 0)), Dense True (Some (1, 1))],
      dense16 = Dense True (Some (1 / 2, 0)), \<dots> = z\<rparr> 3 g
   = (\<lparr>net = Sequential [Dense True (Some (2, 0)), Dense True (Some (1, 1))],
       dense16 = Dense True (Some (1 / 2, 0)), \<dots> = z\<rparr>, g, Inr (7 / 2))"
  by (simp add: NestMLP_call_def scalar_simps)

lemma built_layers_at_three:
  "call_objects (layer_invocation scalar_engine)
     \<lparr>modules = [Dense True (Some (2, 0)), Dense False (Some (1, 1))], \<dots> = z\<rparr> 3 g
   = Some (\<lparr>modules = [Dense True (Some (2, 0)), Dense False (Some (1, 1))], \<dots> = z\<rparr>, g, Inr 7)"
  by (simp add: call_objects_def scalar_simps)

theorem call_changes_a_unit_only_in_its_children_witness:
  "FixedHiddenMLP_call scalar_engine
       \<lparr>flatten = Flatten, rand_weight = 3, dense = Dense True (Some (1, 0))\<rparr> 2 [5]
     = Some (\<lparr>flatten = Flatten, rand_weight = 3, dense = Dense True (Some (1, 0))\<rparr>, [5], Inr (7 / 8))
   \<and> FixedHiddenMLP_calls scalar_engine
       \<lparr>flatten = Flatten, rand_weight = 3, dense = Dense True (Some (1, 0))\<rparr> [2, 1] [5]
     = Some (\<lparr>flatten = Flatten, rand_weight = 3, dense = Dense True (Some (1, 0))\<rparr>, [5],
             [Inr (7 / 8), Inr 1])
   \<and> MLP_call scalar_engine
       \<lparr>hidden = Dense True (Some (2, 1)), out = Dense False (Some (1, - 5))\<rparr> 3 [5]
     = (\<lparr>hidden = Dense True (Some (2, 1)), out = Dense False (Some (1, - 5))\<rparr>, [5], Inr 2)
   \<and> NestMLP_call scalar_engine
       \<lparr>net = Sequential [Dense True (Some (2, 0)), Dense True (Some (1, 1))],
        dense16 = Dense True (Some (1 / 2, 0))\<rparr> 3 [5]
     = (\<lparr>net = Sequential [Dense True (Some (2, 0)), Dense True (Some (1, 1))],
         dense16 = Dense True (Some (1 / 2, 0))\<rparr>, [5], Inr (7 / 2))
   \<and> call_objects (layer_invocation scalar_engine)
       \<lparr>modules = [Dense True (Some (2, 0)), Dense False (Some (1, 1))]\<rparr> 3 [5]
     = Some (\<lparr>modules = [Dense True (Some (2, 0)), Dense False (Some (1, 1))]\<rparr>, [5], Inr 7)
   \<and> unchanged_by_call (layer_invocation scalar_engine) Flatten
   \<and> unchanged_by_call (layer_invocation scalar_engine) (Dense True (Some (1, 0)))
   \<and> unchanged_by_call (layer_invocation scalar_engine)
       (Sequential [Dense True (Some (2, 0)), Dense True (Some (1, 1))])"
proof -
  let ?f = "\<lparr>flatten = Flatten, rand_weight = 3 :: rat, dense = Dense True (Some (1 :: rat, 0 :: rat))\<rparr>"
  let ?m = "\<lparr>hidden = Dense True (Some (2 :: rat, 1 :: rat)), out = Dense False (Some (1 :: rat, - 5 :: rat))\<rparr>"
  let ?n = "\<lparr>net = Sequential [Dense True (Some (2 :: rat, 0 :: rat)), Dense True (Some (1, 1))],
             dense16 = Dense True (Some (1 / 2 :: rat, 0 :: rat))\<rparr>"
  let ?s = "\<lparr>modules = [Dense True (Some (2 :: rat, 0 :: rat)), Dense False (Some (1, 1))]\<rparr>"
  have one: "FixedHiddenMLP_call scalar_engine ?f 2 [5] = Some (?f, [5], Inr (7 / 8))"
    by (rule built_call_at_two)
  have two: "FixedHiddenMLP_calls scalar_engine ?f [2, 1] [5] = Some (?f, [5], [Inr (7 / 8), Inr 1])"
    by (simp add: built_call_at_two built_call_at_one)
  have three: "MLP_call scalar_engine ?m 3 [5] = (?m, [5], Inr 2)"
    by (rule built_MLP_at_three)
  have four: "NestMLP_call scalar_engine ?n 3 [5] = (?n, [5], Inr (7 / 2))"
    by (rule built_NestMLP_at_three)
  have five: "call_objects (layer_invocation scalar_engine) ?s 3 [5] = Some (?s, [5], Inr 7)"
    by (rule built_layers_at_three)
  have settled:
    "unchanged_by_call (layer_invocation scalar_engine) Flatten"
    "unchanged_by_call (layer_invocation scalar_engine) (Dense True (Some (1, 0)))"
    "unchanged_by_call (layer_invocation scalar_engine)
       (Sequential [Dense True (Some (2, 0)), Dense True (Some (1, 1))])"
    unfolding scalar_engine_def
    by (rule flatten_layer_settled dense_layer_settled sequential_layer_settled)+
  from call_changes_a_unit_only_in_its_children
    [where E = scalar_engine and f = ?f and inputs = 2 and w = "[5]" and f' = ?f and w' = "[5]"
      and r = "Inr (7 / 8)" and inputss = "[2, 1]" and f'' = ?f and w'' = "[5]"
      and rs = "[Inr (7 / 8), Inr 1]" and m = ?m and x = 3 and m' = ?m and wm = "[5]" and rm = "Inr 2"
      and n = ?n and n' = ?n and wn = "[5]" and rn = "Inr (7 / 2)"
      and invoke = "layer_invocation scalar_engine" and s = ?s and xs = 3 and ws = "[5]"
      and s' = ?s and ws' = "[5]" and rs' = "Inr 7"]
    one two three four five settled
  show ?thesis by simp
qed

text \<open>
  The claim C4 as stated fails: the first call of a FixedHiddenMLP as the constructor
  leaves it, with its Dense layer not yet built, creates the layer's kernel and bias, so
  the parameters of the unit after the call are not those before.
\<close>

theorem first_call_creates_parameters:
  "FixedHiddenMLP_call scalar_engine
       \<lparr>flatten = Flatten, rand_weight = 3, dense = Dense True None\<rparr> 1 [1]
     = Some (\<lparr>flatten = Flatten, rand_weight = 3, dense = Dense True (Some (1, 0))\<rparr>, [], Inr 1)
   \<and> dense \<lparr>flatten = Flatten, rand_weight = 3 :: rat, dense = Dense True (Some (1 :: rat, 0))\<rparr>
     \<noteq> dense \<lparr>flatten = Flatten, rand_weight = 3 :: rat, dense = Dense True None\<rparr>"
  by (simp add: fresh_call_at_one)


subsection \<open>What a call returns\<close>

lemma MLP_call_result:
  assumes "ignores_state (layer_invocation E) (hidden m)"
    and "ignores_state (layer_invocation E) (out m)"
    and "hidden m' = hidden m" and "out m' = out m"
  shows "snd (snd (MLP_call E m x w)) = snd (snd (MLP_call E m' x w'))"
proof -
  obtain h1 w1 r1 where first: "layer_call E (hidden m) x w = (h1, w1, r1)"
    by (cases "layer_call E (hidden m) x w") auto
  obtain h2 w2 r2 where second: "layer_call E (hidden m) x w' = (h2, w2, r2)"
    by (cases "layer_call E (hidden m) x w'") auto
  from layer_result [OF assms(1), of x w w'] first second have same: "r2 = r1"
    by simp
  show ?thesis
  proof (cases r1)
    case (Inl e)
    with first second same assms(3) show ?thesis
      by (simp add: MLP_call_def)
  next
    case (Inr y)
    from layer_result [OF assms(2), of y w1 w2] first second same Inr assms(3,4) show ?thesis
      by (auto simp add: MLP_call_def split: prod.splits)
  qed
qed

lemma NestMLP_call_result:
  assumes "ignores_state (layer_invocation E) (net n)"
    and "ignores_state (layer_invocation E) (dense16 n)"
    and "net n' = net n" and "dense16 n' = dense16 n"
  shows "snd (snd (NestMLP_call E n x w)) = snd (snd (NestMLP_call E n' x w'))"
proof -
  obtain h1 w1 r1 where first: "layer_call E (net n) x w = (h1, w1, r1)"
    by (cases "layer_call E (net n) x w") auto
  obtain h2 w2 r2 where second: "layer_call E (net n) x w' = (h2, w2, r2)"
    by (cases "layer_call E (net n) x w'") auto
  from layer_result [OF assms(1), of x w w'] first second have same: "r2 = r1"
    by simp
  show ?thesis
  proof (cases r1)
    case (Inl e)
    with first second same assms(3) show ?thesis
      by (simp add: NestMLP_call_def)
  next
    case (Inr y)
    from layer_result [OF assms(2), of y w1 w2] first second same Inr assms(3,4) show ?thesis
      by (auto simp add: NestMLP_call_def split: prod.splits)
  qed
qed

lemma before_loop_result:
  assumes "ignores_state (layer_invocation E) (flatten f)"
    and "ignores_state (layer_invocation E) (dense f)"
    and "flatten f' = flatten f" and "rand_weight f' = rand_weight f" and "dense f' = dense f"
  shows "snd (snd (before_loop E f inputs w)) = snd (snd (before_loop E f' inputs w'))"
proof -
  obtain l1 w1 r1 where first: "layer_call E (flatten f) inputs w = (l1, w1, r1)"
    by (cases "layer_call E (flatten f) inputs w") auto
  obtain l2 w2 r2 where second: "layer_call E (flatten f) inputs w' = (l2, w2, r2)"
    by (cases "layer_call E (flatten f) inputs w'") auto
  from layer_result [OF assms(1), of inputs w w'] first second have same: "r2 = r1"
    by simp
  show ?thesis
  proof (cases r1)
    case (Inl e)
    with first second same assms(3) show ?thesis
      by (simp add: before_loop_def)
  next
    case flat: (Inr x)
    show ?thesis
    proof (cases "fixed_hidden_layer E x (rand_weight f)")
      case (Inl e)
      with first second same flat assms(3,4) show ?thesis
        by (simp add: before_loop_def)
    next
      case (Inr y)
      obtain d1 v1 q1 where third: "layer_call E (dense f) y w1 = (d1, v1, q1)"
        by (cases "layer_call E (dense f) y w1") auto
      obtain d2 v2 q2 where fourth: "layer_call E (dense f) y w2 = (d2, v2, q2)"
        by (cases "layer_call E (dense f) y w2") auto
      from layer_result [OF assms(2), of y w1 w2] third fourth have "q2 = q1"
        by simp
      with first second same flat Inr third fourth assms(3,4,5) show ?thesis
        by (simp add: before_loop_def)
    qed
  qed
qed

lemma FixedHiddenMLP_call_result:
  assumes "ignores_state (layer_invocation E) (flatten f)"
    and "ignores_state (layer_invocation E) (dense f)"
    and "flatten f' = flatten f" and "rand_weight f' = rand_weight f" and "dense f' = dense f"
  shows "map_option (\<lambda>after. snd (snd after)) (FixedHiddenMLP_call E f inputs w)
       = map_option (\<lambda>after. snd (snd after)) (FixedHiddenMLP_call E f' inputs w')"
proof -
  obtain f1 w1 r1 where first: "before_loop E f inputs w = (f1, w1, r1)"
    by (cases "before_loop E f inputs w") auto
  obtain f2 w2 r2 where second: "before_loop E f' inputs w' = (f2, w2, r2)"
    by (cases "before_loop E f' inputs w'") auto
  from before_loop_result [OF assms, of inputs w w'] first second have "r2 = r1"
    by simp
  with first second show ?thesis
    by (simp add: FixedHiddenMLP_call_def split: sum.splits option.splits)
qed

text \<open>
  C5. In the four classes of units of the notebook (MLP, NestMLP, FixedHiddenMLP,
  MySequential) \<open>call\<close> draws no random number itself. So for a unit whose \<open>call\<close> samples
  no randomness, that is, whose children return or raise the same from every state of the
  framework's random generator, as built layers do, \<open>call\<close> is deterministic: two
  invocations on units with the same children (and, for a FixedHiddenMLP, the same
  constant \<open>rand_weight\<close>) and the same input give the same output, from any two states
  of the generator and whatever else the two units carry. Where one invocation raises or
  does not return, the other raises the same or does not return.
\<close>

theorem call_is_deterministic_on_built_children:
  "(ignores_state (layer_invocation E) (hidden m) \<and> ignores_state (layer_invocation E) (out m)
      \<and> hidden m' = hidden m \<and> out m' = out m
      \<longrightarrow> snd (snd (MLP_call E m x w)) = snd (snd (MLP_call E m' x w')))
   \<and> (ignores_state (layer_invocation E) (net n) \<and> ignores_state (layer_invocation E) (dense16 n)
        \<and> net n' = net n \<and> dense16 n' = dense16 n
        \<longrightarrow> snd (snd (NestMLP_call E n x w)) = snd (snd (NestMLP_call E n' x w')))
   \<and> (ignores_state (layer_invocation E) (flatten f) \<and> ignores_state (layer_invocation E) (dense f)
        \<and> flatten f' = flatten f \<and> rand_weight f' = rand_weight f \<and> dense f' = dense f
        \<longrightarrow> map_option (\<lambda>after. snd (snd after)) (FixedHiddenMLP_call E f inputs w)
            = map_option (\<lambda>after. snd (snd after)) (FixedHiddenMLP_call E f' inputs w'))
   \<and> ((\<forall>c \<in> set (modules s). ignores_state invoke c) \<and> modules s' = modules s
        \<longrightarrow> map_option (\<lambda>after. snd (snd after)) (call_objects invoke s xs ws)
            = map_option (\<lambda>after. snd (snd after)) (call_objects invoke s' xs ws'))"
  using MLP_call_result [of E m m' x w w'] NestMLP_call_result [of E n n' x w w']
    FixedHiddenMLP_call_result [of E f f' inputs w w'] call_objects_result [of s invoke s' xs ws ws']
  by blast

theorem call_is_deterministic_on_built_children_witness:
  "snd (snd (MLP_call scalar_engine
       \<lparr>hidden = Dense True (Some (2, 1)), out = Dense False (Some (1, - 5))\<rparr> 3 []))
     = snd (snd (MLP_call scalar_engine
       \<lparr>hidden = Dense True (Some (2, 1)), out = Dense False (Some (1, - 5)), \<dots> = ''mlp_1''\<rparr> 3 [5, 7]))
   \<and> MLP_call scalar_engine
       \<lparr>hidden = Dense True (Some (2, 1)), out = Dense False (Some (1, - 5))\<rparr> 3 []
     = (\<lparr>hidden = Dense True (Some (2, 1)), out = Dense False (Some (1, - 5))\<rparr>, [], Inr 2)
   \<and> map_option (\<lambda>after. snd (snd after)) (FixedHiddenMLP_call scalar_engine
       \<lparr>flatten = Flatten, rand_weight = 3, dense = Dense True (Some (1, 0))\<rparr> 2 [])
     = map_option (\<lambda>after. snd (snd after)) (FixedHiddenMLP_call scalar_engine
       \<lparr>flatten = Flatten, rand_weight = 3, dense = Dense True (Some (1, 0)), \<dots> = ''net''\<rparr> 2 [5, 7])
   \<and> map_option (\<lambda>after. snd (snd after)) (FixedHiddenMLP_call scalar_engine
       \<lparr>flatten = Flatten, rand_weight = 3, dense = Dense True (Some (1, 0))\<rparr> 2 [])
     = Some (Inr (7 / 8))
   \<and> snd (snd (NestMLP_call scalar_engine
       \<lparr>net = Sequential [Dense True (Some (2, 0)), Dense True (Some (1, 1))],
        dense16 = Dense True (Some (1 / 2, 0))\<rparr> 3 []))
     = snd (snd (NestMLP_call scalar_engine
       \<lparr>net = Sequential [Dense True (Some (2, 0)), Dense True (Some (1, 1))],
        dense16 = Dense True (Some (1 / 2, 0))\<rparr> 3 [5, 7]))
   \<and> map_option (\<lambda>after. snd (snd after)) (call_objects (layer_invocation scalar_engine)
       \<lparr>modules = [Dense True (Some (2, 0)), Dense False (Some (1, 1))]\<rparr> 3 [])
     = map_option (\<lambda>after. snd (snd after)) (call_objects (layer_invocation scalar_engine)
       \<lparr>modules = [Dense True (Some (2, 0)), Dense False (Some (1, 1))]\<rparr> 3 [5, 7])
   \<and> ignores_state (layer_invocation scalar_engine) Flatten
   \<and> ignores_state (layer_invocation scalar_engine) (Dense True (Some (1, 0)))
   \<and> ignores_state (layer_invocation scalar_engine)
       (Sequential [Dense True (Some (2, 0)), Dense True (Some (1, 1))])"
proof -
  let ?f = "\<lparr>flatten = Flatten, rand_weight = 3 :: rat, dense = Dense True (Some (1 :: rat, 0 :: rat))\<rparr>"
  let ?f' = "\<lparr>flatten = Flatten, rand_weight = 3 :: rat, dense = Dense True (Some (1 :: rat, 0 :: rat)),
              \<dots> = ''net''\<rparr>"
  let ?m = "\<lparr>hidden = Dense True (Some (2 :: rat, 1 :: rat)), out = Dense False (Some (1 :: rat, - 5 :: rat))\<rparr>"
  let ?m' = "\<lparr>hidden = Dense True (Some (2 :: rat, 1 :: rat)), out = Dense False (Some (1 :: rat, - 5 :: rat)),
              \<dots> = ''mlp_1''\<rparr>"
  let ?n = "\<lparr>net = Sequential [Dense True (Some (2 :: rat, 0 :: rat)), Dense True (Some (1, 1))],
             dense16 = Dense True (Some (1 / 2 :: rat, 0 :: rat))\<rparr>"
  let ?s = "\<lparr>modules = [Dense True (Some (2 :: rat, 0 :: rat)), Dense False (Some (1, 1))]\<rparr>"
  have settled:
    "ignores_state (layer_invocation scalar_engine) Flatten"
    "ignores_state (layer_invocation scalar_engine) (Dense rectified (Some (k, b)))"
    "ignores_state (layer_invocation scalar_engine)
       (Sequential [Dense True (Some (2, 0)), Dense True (Some (1, 1))])" for rectified k b
    unfolding scalar_engine_def
    by (rule flatten_layer_settled dense_layer_settled sequential_layer_settled)+
  from call_is_deterministic_on_built_children
    [where E = scalar_engine and m = ?m and m' = ?m' and x = 3 and w = "[]" and w' = "[5, 7]"
      and n = ?n and n' = ?n and f = ?f and f' = ?f' and inputs = 2
      and invoke = "layer_invocation scalar_engine" and s = ?s and s' = ?s and xs = 3
      and ws = "[]" and ws' = "[5, 7]"]
    settled
  have "snd (snd (MLP_call scalar_engine ?m 3 [])) = snd (snd (MLP_call scalar_engine ?m' 3 [5, 7]))"
    and "snd (snd (NestMLP_call scalar_engine ?n 3 [])) = snd (snd (NestMLP_call scalar_engine ?n 3 [5, 7]))"
    and "map_option (\<lambda>after. snd (snd after)) (FixedHiddenMLP_call scalar_engine ?f 2 [])
       = map_option (\<lambda>after. snd (snd after)) (FixedHiddenMLP_call scalar_engine ?f' 2 [5, 7])"
    and "map_option (\<lambda>after. snd (snd after)) (call_objects (layer_invocation scalar_engine) ?s 3 [])
       = map_option (\<lambda>after. snd (snd after)) (call_objects (layer_invocation scalar_engine) ?s 3 [5, 7])"
    by simp_all
  then show ?thesis
    using settled by (simp add: built_MLP_at_three built_call_at_two)
qed

text \<open>
  The condition on the children is where the parameter values enter. A layer that is not
  yet built has no parameter values: its first call draws them from the random generator.
  Two first calls of an MLP as the constructor leaves it, from two states of the
  generator, compute with different kernels (1 and 2 below) and return different outputs.
\<close>

lemma fresh_units_draw_their_kernels:
  "MLP_call scalar_engine \<lparr>hidden = Dense True None, out = Dense False None\<rparr> 3 [1, 1]
     = (\<lparr>hidden = Dense True (Some (1, 0)), out = Dense False (Some (1, 0))\<rparr>, [], Inr 3)
   \<and> MLP_call scalar_engine \<lparr>hidden = Dense True None, out = Dense False None\<rparr> 3 [2, 1]
     = (\<lparr>hidden = Dense True (Some (2, 0)), out = Dense False (Some (1, 0))\<rparr>, [], Inr 6)"
  by (simp add: fresh_MLP_at_three)

subsection \<open>The loop\<close>












section \<open>Properties of the device selection\<close>

text \<open>
  C9. For an index \<open>i \<ge> 0\<close>, \<open>try_gpu\<close> returns the device made from the name
  \<^verbatim>\<open>/GPU:i\<close> exactly when at least \<open>i + 1\<close> GPUs are listed, and the device made from
  \<^verbatim>\<open>/CPU:0\<close> exactly when fewer are, which includes an index of a GPU that does not
  exist. The function has no statement that raises: it is total.
\<close>

theorem try_gpu_selects:
  assumes "0 \<le> i"
  shows "((try_gpu devices i = tf_device (''/GPU:'' @ str_int i))
            = (int (length (devices ''GPU'')) \<ge> i + 1))
       \<and> ((try_gpu devices i = tf_device ''/CPU:0'')
            = (int (length (devices ''GPU'')) < i + 1))"
  by (auto simp add: try_gpu_def tf_device_def)

theorem try_gpu_selects_witness:
  "(0::int) \<le> 1 \<and> try_gpu two_gpus 1 = tf_device ''/GPU:1''
   \<and> (0::int) \<le> 3 \<and> try_gpu two_gpus 3 = tf_device ''/CPU:0''
   \<and> try_gpu no_gpu 0 = tf_device ''/CPU:0''"
proof -
  have "str_int 1 = ''1''"
    by (simp add: str_int_def digit_def)
  then show ?thesis
    using try_gpu_selects [of 1 two_gpus] try_gpu_selects [of 3 two_gpus] try_gpu_selects [of 0 no_gpu]
    by (simp add: two_gpus_def no_gpu_def)
qed

text \<open>
  C10. \<open>try_all_gpus\<close> never returns the empty list. When \<open>n \<ge> 1\<close> GPUs are listed
  it returns \<open>n\<close> devices, the one at position \<open>i\<close> made from the name \<^verbatim>\<open>/GPU:i\<close>;
  when none is listed it returns the one device made from \<^verbatim>\<open>/CPU:0\<close>.
\<close>

theorem try_all_gpus_lists:
  "try_all_gpus devices \<noteq> []
   \<and> (length (devices ''GPU'') \<ge> 1 \<longrightarrow>
        length (try_all_gpus devices) = length (devices ''GPU'')
        \<and> (\<forall>i < length (devices ''GPU'').
              try_all_gpus devices ! i = tf_device (''/GPU:'' @ str_int (int i))))
   \<and> (length (devices ''GPU'') = 0 \<longrightarrow> try_all_gpus devices = [tf_device ''/CPU:0''])"
  by (auto simp add: try_all_gpus_def Let_def)

theorem try_all_gpus_lists_witness:
  "length (two_gpus ''GPU'') \<ge> 1
   \<and> try_all_gpus two_gpus = [tf_device ''/GPU:0'', tf_device ''/GPU:1'']
   \<and> length (no_gpu ''GPU'') = 0
   \<and> try_all_gpus no_gpu = [tf_device ''/CPU:0'']"
proof -
  have names: "str_int 0 = ''0''" "str_int 1 = ''1''"
    by (simp_all add: str_int_def digit_def)
  have two: "length (two_gpus ''GPU'') = 2"
    by (simp add: two_gpus_def)
  have none: "length (no_gpu ''GPU'') = 0"
    by (simp add: no_gpu_def)
  from try_all_gpus_lists [of two_gpus] two
  have "length (try_all_gpus two_gpus) = 2"
    and "try_all_gpus two_gpus ! 0 = tf_device ''/GPU:0''"
    and "try_all_gpus two_gpus ! 1 = tf_device ''/GPU:1''"
    by (simp_all add: names)
  then have "try_all_gpus two_gpus = [tf_device ''/GPU:0'', tf_device ''/GPU:1'']"
    by (simp add: list_eq_iff_nth_eq less_Suc_eq numeral_2_eq_2)
  moreover from try_all_gpus_lists [of no_gpu] none
  have "try_all_gpus no_gpu = [tf_device ''/CPU:0'']"
    by simp
  ultimately show ?thesis
    using two none by simp
qed

end
